theory Spec2Isabelle
  imports Main "HOL-Library.AList"
begin

section \<open>The taxe-server relay: data model\<close>

text \<open>
  The server (\<^verbatim>\<open>server.js\<close>) keeps one global object \<^verbatim>\<open>games\<close>, keyed by game code, and
  attaches two fields, \<^verbatim>\<open>gameID\<close> and \<^verbatim>\<open>role\<close>, to every socket object. Sockets are
  objects with identity; here a socket is named by a number and its two fields live in
  a table indexed by that number, so that aliasing (a game holding a reference to a
  socket whose fields change later) is kept.
\<close>

type_synonym sock = nat

datatype player_role = Master | Slave

text \<open>The fields the server stores on a socket; \<^verbatim>\<open>null\<close> is \<open>None\<close>.\<close>

record conn =
  gameID :: "string option"
  role :: "player_role option"

text \<open>
  One property of \<^verbatim>\<open>games\<close>. The nested objects \<^verbatim>\<open>players\<close> and \<^verbatim>\<open>sockets\<close> are
  flattened; \<^verbatim>\<open>created\<close> is a clock reading; \<^verbatim>\<open>data\<close> is the opaque payload.
\<close>

record 'd game =
  name :: string
  difficulty :: int
  players_master :: string
  players_slave :: "string option"
  created :: nat
  data :: 'd
  sockets_master :: sock
  sockets_slave :: "sock option"

text \<open>The object pushed by \<^verbatim>\<open>LG\<close> and returned by \<^verbatim>\<open>CG\<close>: \<^verbatim>\<open>{id, name, created, difficulty}\<close>.\<close>

record listing =
  l_id :: string
  l_name :: string
  l_created :: nat
  l_difficulty :: int

text \<open>Events the server emits to a client: \<^verbatim>\<open>GS\<close>, \<^verbatim>\<open>PP\<close> with the data, \<^verbatim>\<open>EG\<close>.\<close>

datatype 'd push = GS | PP 'd | EG

text \<open>
  What a handler sends, in order: a call of the acknowledgement callback \<^verbatim>\<open>respond\<close>
  of the calling socket, or an \<^verbatim>\<open>emit\<close> on some socket.
\<close>

datatype 'd out =
    RespondList "listing list"
  | RespondGame listing
  | RespondOk
  | RespondErr string
  | Emit sock "'d push"

text \<open>Transport side of a socket: not yet connected, connected, disconnected.\<close>

datatype phase = Fresh | Open | Closed

text \<open>
  \<^verbatim>\<open>games\<close> is an association list in insertion order: assignment to a new key appends,
  assignment to an existing key replaces in place, \<^verbatim>\<open>delete\<close> removes the key.
\<close>

record 'd state =
  games :: "(string \<times> 'd game) list"
  socks :: "sock \<Rightarrow> conn"
  phase :: "sock \<Rightarrow> phase"

text \<open>
  A handler returns normally (\<open>Done\<close>), or throws a \<^verbatim>\<open>TypeError\<close> that nothing catches
  (\<open>Uncaught\<close>, with the state and the outputs at the moment of the throw: JavaScript
  does not roll back), or is still in the code-generation loop when the given random
  draws are used up (\<open>Diverges\<close>).
\<close>

datatype 'd result =
    Done "'d state" "'d out list"
  | Uncaught "'d state" "'d out list"
  | Diverges

section \<open>JavaScript primitives used by the handlers\<close>

text \<open>\<^verbatim>\<open>games.hasOwnProperty(k)\<close>.\<close>

definition hasOwnProperty :: "(string \<times> 'd game) list \<Rightarrow> string \<Rightarrow> bool" where
  "hasOwnProperty gs k = (map_of gs k \<noteq> None)"

text \<open>
  The property key of \<^verbatim>\<open>games[x]\<close> for \<^verbatim>\<open>x\<close> a string or \<^verbatim>\<open>null\<close>: \<^verbatim>\<open>null\<close> is
  converted to the string \<^verbatim>\<open>"null"\<close>. Generated codes are at most five characters of
  \<^verbatim>\<open>0-9a-z\<close>, so \<^verbatim>\<open>games[x]\<close> never finds a property inherited from
  \<^verbatim>\<open>Object.prototype\<close>: it is the own property or \<^verbatim>\<open>undefined\<close>.
\<close>

definition prop_key :: "string option \<Rightarrow> string" where
  "prop_key x = (case x of None \<Rightarrow> ''null'' | Some k \<Rightarrow> k)"

text \<open>
  \<^verbatim>\<open>!x\<close> for \<^verbatim>\<open>x\<close> a string or \<^verbatim>\<open>null\<close>: true for \<^verbatim>\<open>null\<close> and for the empty string
  (which is the code drawn when \<^verbatim>\<open>Math.random()\<close> gives 0).
\<close>

definition falsy :: "string option \<Rightarrow> bool" where
  "falsy x = (case x of None \<Rightarrow> True | Some k \<Rightarrow> k = [])"

text \<open>\<^verbatim>\<open>s.slice(-1)\<close>: the last character as a string, or the empty string.\<close>

definition slice_last :: "string \<Rightarrow> string" where
  "slice_last s = (if s = [] then [] else [last s])"

text \<open>
  The order in which \<^verbatim>\<open>for (code in games)\<close> visits the keys: keys that are array
  indices (canonical decimal numerals below \<open>2^32 - 1\<close>) in ascending numeric order,
  then all other keys in insertion order.
\<close>

definition is_digit :: "char \<Rightarrow> bool" where
  "is_digit c = (c \<in> set ''0123456789'')"

definition dec_val :: "string \<Rightarrow> nat" where
  "dec_val k = foldl (\<lambda>n c. 10 * n + (of_char c - 48)) 0 k"

definition array_index :: "string \<Rightarrow> bool" where
  "array_index k =
     (k \<noteq> [] \<and> list_all is_digit k \<and> (k = ''0'' \<or> hd k \<noteq> CHR ''0'')
      \<and> dec_val k < 2 ^ 32 - 1)"

definition for_in_keys :: "(string \<times> 'd game) list \<Rightarrow> string list" where
  "for_in_keys gs =
     (let ks = map fst gs
      in sort_key dec_val (filter array_index ks) @ filter (\<lambda>k. \<not> array_index k) ks)"

section \<open>The handlers\<close>

text \<open>
  Each handler takes the state and the socket it was registered on, and the arguments of
  the event with the types the handler's comment gives them: codes are strings, the
  difficulty is an integer, the data is opaque; \<^verbatim>\<open>respond\<close> is a function. A player's
  name is a string or \<^verbatim>\<open>null\<close> (\<open>None\<close>): nothing checks it, \<^verbatim>\<open>JG\<close> stores it as it comes
  and \<^verbatim>\<open>CG\<close> calls \<^verbatim>\<open>slice\<close> on it.
  The calls of \<^verbatim>\<open>socketLog\<close> and \<^verbatim>\<open>debugLog\<close> only print and are left out.
\<close>

subsection \<open>\<^verbatim>\<open>LG\<close>: list joinable games\<close>

text \<open>
  The loop body of \<^verbatim>\<open>LG\<close>, over the keys still to visit, with the array built so far.
  Every key visited is an own key; the \<open>None\<close> branch is never taken from \<open>LG\<close>.
\<close>

fun collect :: "(string \<times> 'd game) list \<Rightarrow> string list \<Rightarrow> listing list \<Rightarrow> listing list" where
  "collect gs [] availableGames = availableGames"
| "collect gs (code # rest) availableGames =
     (case map_of gs code of
        None \<Rightarrow> collect gs rest availableGames
      | Some g \<Rightarrow>
          if players_slave g \<noteq> None then collect gs rest availableGames
          else collect gs rest
                 (availableGames @
                   [\<lparr>l_id = code, l_name = name g, l_created = created g,
                     l_difficulty = difficulty g\<rparr>]))"

definition LG :: "'d state \<Rightarrow> sock \<Rightarrow> 'd result" where
  "LG s socket = Done s [RespondList (collect (games s) (for_in_keys (games s)) [])]"

subsection \<open>\<^verbatim>\<open>CG\<close>: create game\<close>

text \<open>
  The \<^verbatim>\<open>do ... while (games.hasOwnProperty(gameID))\<close> loop. The list holds the strings
  that successive evaluations of \<^verbatim>\<open>Math.random().toString(36).substring(2, 7)\<close> give;
  \<open>None\<close> means the loop has not ended when they are used up.
\<close>

fun genID :: "(string \<times> 'd game) list \<Rightarrow> string list \<Rightarrow> string option" where
  "genID gs [] = None"
| "genID gs (c # cs) = (if hasOwnProperty gs c then genID gs cs else Some c)"

definition gameName :: "string \<Rightarrow> string" where
  "gameName playerName =
     (if slice_last playerName \<noteq> ''s'' then playerName @ '''s Game''
      else playerName @ ''' Game'')"

text \<open>
  \<open>draws\<close> are the random strings available to the loop; \<open>t1\<close> and \<open>t2\<close> are the two
  evaluations of \<^verbatim>\<open>new Date()\<close>, the first stored in the game, the second returned.
  After the loop, \<^verbatim>\<open>playerName.slice(-1)\<close> throws a \<^verbatim>\<open>TypeError\<close> when the name is
  \<^verbatim>\<open>null\<close>, before anything is stored or answered.
\<close>

definition CG ::
  "'d state \<Rightarrow> sock \<Rightarrow> string option \<Rightarrow> int \<Rightarrow> 'd \<Rightarrow> string list \<Rightarrow> nat \<Rightarrow> nat
     \<Rightarrow> 'd result" where
  "CG s socket playerName diff gameData draws t1 t2 =
     (case genID (games s) draws of
        None \<Rightarrow> Diverges
      | Some gid \<Rightarrow>
          (case playerName of
             None \<Rightarrow> Uncaught s []
           | Some pn \<Rightarrow>
               let g = \<lparr>name = gameName pn, difficulty = diff,
                        players_master = pn, players_slave = None,
                        created = t1, data = gameData,
                        sockets_master = socket, sockets_slave = None\<rparr>;
                   s1 = s\<lparr>games := AList.update gid g (games s)\<rparr>;
                   s2 = s1\<lparr>socks := (socks s1)
                          (socket := (socks s1 socket)\<lparr>gameID := Some gid, role := Some Master\<rparr>)\<rparr>
               in Done s2
                    [RespondGame \<lparr>l_id = gid, l_name = gameName pn, l_created = t2,
                                   l_difficulty = diff\<rparr>]))"

subsection \<open>\<^verbatim>\<open>JG\<close>: join game\<close>

definition err_not_found :: string where
  "err_not_found = ''Sorry, the Game could not be found.''"

definition err_nickname :: string where
  "err_nickname = ''Sorry, you cannot use the same nickname as your opponent.''"

text \<open>
  \<^verbatim>\<open>games[gameID].players.master == playerName\<close> compares a string with a string or with
  \<^verbatim>\<open>null\<close>; a string never equals \<^verbatim>\<open>null\<close>. The name is stored as it is, so after a join
  with a \<^verbatim>\<open>null\<close> name \<^verbatim>\<open>players.slave\<close> is still \<^verbatim>\<open>null\<close> while \<^verbatim>\<open>sockets.slave\<close> is set.
\<close>

definition JG :: "'d state \<Rightarrow> sock \<Rightarrow> string \<Rightarrow> string option \<Rightarrow> 'd result" where
  "JG s socket gid playerName =
     (case map_of (games s) gid of
        None \<Rightarrow> Done s [RespondErr err_not_found]
      | Some g \<Rightarrow>
          if Some (players_master g) = playerName then Done s [RespondErr err_nickname]
          else
            let g' = g\<lparr>players_slave := playerName, sockets_slave := Some socket\<rparr>;
                s1 = s\<lparr>games := AList.update gid g' (games s)\<rparr>;
                s2 = s1\<lparr>socks := (socks s1)
                       (socket := (socks s1 socket)\<lparr>gameID := Some gid, role := Some Slave\<rparr>)\<rparr>
            in Done s2 [RespondOk, Emit (sockets_master g') GS, Emit socket (PP (data g'))])"

subsection \<open>\<^verbatim>\<open>M\<close>: move, and \<^verbatim>\<open>ET\<close>: end turn\<close>

definition err_not_slave :: string where
  "err_not_slave = ''Sorry, you are the master player or you have not joined a game.''"

definition err_not_master :: string where
  "err_not_master = ''Sorry, you are the slave player or you have not joined a game.''"

text \<open>
  \<^verbatim>\<open>games[gameID].data = gameData\<close> throws a \<^verbatim>\<open>TypeError\<close> when \<^verbatim>\<open>games[gameID]\<close> is
  \<^verbatim>\<open>undefined\<close>; the master socket of a game is never \<^verbatim>\<open>null\<close>.
\<close>

definition M :: "'d state \<Rightarrow> sock \<Rightarrow> 'd \<Rightarrow> 'd result" where
  "M s socket gameData =
     (if role (socks s socket) \<noteq> Some Slave then Done s [RespondErr err_not_slave]
      else
        let gid = prop_key (gameID (socks s socket))
        in case map_of (games s) gid of
             None \<Rightarrow> Uncaught s []
           | Some g \<Rightarrow>
               let g' = g\<lparr>data := gameData\<rparr>;
                   s1 = s\<lparr>games := AList.update gid g' (games s)\<rparr>
               in Done s1 [RespondOk, Emit (sockets_master g') (PP (data g'))])"

text \<open>
  In \<^verbatim>\<open>ET\<close> the emit goes to \<^verbatim>\<open>games[gameID].sockets.slave\<close>, which is \<^verbatim>\<open>null\<close> until
  somebody joins: \<^verbatim>\<open>null.emit\<close> throws, after the data was stored and the caller
  answered.
\<close>

definition ET :: "'d state \<Rightarrow> sock \<Rightarrow> 'd \<Rightarrow> 'd result" where
  "ET s socket gameData =
     (if role (socks s socket) \<noteq> Some Master then Done s [RespondErr err_not_master]
      else
        let gid = prop_key (gameID (socks s socket))
        in case map_of (games s) gid of
             None \<Rightarrow> Uncaught s []
           | Some g \<Rightarrow>
               let g' = g\<lparr>data := gameData\<rparr>;
                   s1 = s\<lparr>games := AList.update gid g' (games s)\<rparr>
               in (case sockets_slave g' of
                     None \<Rightarrow> Uncaught s1 [RespondOk]
                   | Some j \<Rightarrow> Done s1 [RespondOk, Emit j (PP (data g'))]))"

subsection \<open>\<^verbatim>\<open>disconnect\<close>\<close>

definition disconnect :: "'d state \<Rightarrow> sock \<Rightarrow> 'd result" where
  "disconnect s socket =
     (if falsy (gameID (socks s socket)) then Done s []
      else
        let gid = prop_key (gameID (socks s socket))
        in case map_of (games s) gid of
             None \<Rightarrow> Uncaught s []
           | Some g \<Rightarrow>
               let opponent = (if role (socks s socket) = Some Master then sockets_slave g
                               else Some (sockets_master g))
               in (case opponent of
                     None \<Rightarrow> Done (s\<lparr>games := AList.delete gid (games s)\<rparr>) []
                   | Some opp \<Rightarrow>
                       let s1 = s\<lparr>socks := (socks s)
                                  (opp := (socks s opp)\<lparr>gameID := None, role := None\<rparr>)\<rparr>
                       in Done (s1\<lparr>games := AList.delete gid (games s1)\<rparr>) [Emit opp EG]))"

section \<open>The server as a whole\<close>

text \<open>
  The \<^verbatim>\<open>connection\<close> callback gives a new socket empty fields. Events arrive one at a
  time; a command is delivered only on a connected socket, a socket connects once and
  disconnects once. An uncaught exception ends the run (the Node process dies).
\<close>

datatype 'd input =
    Connect sock
  | ListGames sock
  | CreateGame sock "string option" int 'd "string list" nat nat
  | JoinGame sock string "string option"
  | Move sock 'd
  | EndTurn sock 'd
  | Disconnect sock

definition connection :: "'d state \<Rightarrow> sock \<Rightarrow> 'd state" where
  "connection s socket =
     s\<lparr>socks := (socks s)(socket := \<lparr>gameID = None, role = None\<rparr>),
       phase := (phase s)(socket := Open)\<rparr>"

fun exec :: "'d state \<Rightarrow> 'd input \<Rightarrow> 'd result" where
  "exec s (Connect k) = (if phase s k = Fresh then Done (connection s k) [] else Done s [])"
| "exec s (ListGames k) = (if phase s k = Open then LG s k else Done s [])"
| "exec s (CreateGame k playerName diff gameData draws t1 t2) =
     (if phase s k = Open then CG s k playerName diff gameData draws t1 t2 else Done s [])"
| "exec s (JoinGame k gid playerName) =
     (if phase s k = Open then JG s k gid playerName else Done s [])"
| "exec s (Move k gameData) = (if phase s k = Open then M s k gameData else Done s [])"
| "exec s (EndTurn k gameData) = (if phase s k = Open then ET s k gameData else Done s [])"
| "exec s (Disconnect k) =
     (if phase s k = Open then disconnect (s\<lparr>phase := (phase s)(k := Closed)\<rparr>) k
      else Done s [])"

fun run :: "'d state \<Rightarrow> 'd out list \<Rightarrow> 'd input list \<Rightarrow> 'd result" where
  "run s acc [] = Done s acc"
| "run s acc (i # rest) =
     (case exec s i of
        Done s' outs \<Rightarrow> run s' (acc @ outs) rest
      | Uncaught s' outs \<Rightarrow> Uncaught s' (acc @ outs)
      | Diverges \<Rightarrow> Diverges)"

definition init :: "'d state" where
  "init = \<lparr>games = [], socks = (\<lambda>_. \<lparr>gameID = None, role = None\<rparr>), phase = (\<lambda>_. Fresh)\<rparr>"

inductive reachable :: "'d state \<Rightarrow> bool" where
  start: "reachable init"
| step: "reachable s \<Longrightarrow> exec s i = Done s' outs \<Longrightarrow> reachable s'"

section \<open>Notions used in the statements\<close>

text \<open>
  Two facts hold of \<^verbatim>\<open>games\<close> in every state the server reaches: its keys are pairwise
  distinct, and a game without a second player's socket has no second player's name
  (only \<^verbatim>\<open>JG\<close> sets either, and it sets the socket whenever it sets the name).
\<close>

definition slaves_bound :: "(string \<times> 'd game) list \<Rightarrow> bool" where
  "slaves_bound gs =
     list_all (\<lambda>(k, g). sockets_slave g \<noteq> None \<or> players_slave g = None) gs"

definition registry_inv :: "'d state \<Rightarrow> bool" where
  "registry_inv s = (distinct (map fst (games s)) \<and> slaves_bound (games s))"



text \<open>What one pass of the loop of \<^verbatim>\<open>LG\<close> adds for a key: nothing, or one listing.\<close>

definition entry :: "(string \<times> 'd game) list \<Rightarrow> string \<Rightarrow> listing option" where
  "entry gs code =
     (case map_of gs code of
        None \<Rightarrow> None
      | Some g \<Rightarrow> if players_slave g \<noteq> None then None
                  else Some \<lparr>l_id = code, l_name = name g, l_created = created g,
                              l_difficulty = difficulty g\<rparr>)"

text \<open>The codes a run has handed out: the \<^verbatim>\<open>id\<close> of every answer of \<^verbatim>\<open>CG\<close>, in order.\<close>

fun codes_of :: "'d out list \<Rightarrow> string list" where
  "codes_of [] = []"
| "codes_of (RespondGame e # outs) = l_id e # codes_of outs"
| "codes_of (_ # outs) = codes_of outs"

fun is_disconnect :: "'d input \<Rightarrow> bool" where
  "is_disconnect (Disconnect k) = True"
| "is_disconnect _ = False"

section \<open>Example states\<close>

text \<open>
  Three clients connect and client 0 creates a game, drawing the code \<^verbatim>\<open>abcde\<close>
  (\<open>st_created\<close>); client 1 joins it as Ann (\<open>st_joined\<close>); client 2 joins the same
  game as Bob (\<open>st_rejoined\<close>); client 2 disconnects (\<open>st_stale\<close>). In \<open>st_unnamed\<close>
  client 1 has joined the game of \<open>st_created\<close> with the name \<^verbatim>\<open>null\<close>. The payload is a
  number here.
\<close>

definition lobby :: conn where
  "lobby = \<lparr>gameID = None, role = None\<rparr>"

definition jack_game :: "nat game" where
  "jack_game = \<lparr>name = ''Jack's Game'', difficulty = 2, players_master = ''Jack'',
                 players_slave = None, created = 100, data = 0,
                 sockets_master = 0, sockets_slave = None\<rparr>"

definition three_open :: "sock \<Rightarrow> phase" where
  "three_open k = (if k \<le> 2 then Open else Fresh)"

definition st_created :: "nat state" where
  "st_created =
     \<lparr>games = [(''abcde'', jack_game)],
      socks = (\<lambda>k. if k = 0 then \<lparr>gameID = Some ''abcde'', role = Some Master\<rparr> else lobby),
      phase = three_open\<rparr>"

definition st_joined :: "nat state" where
  "st_joined =
     \<lparr>games = [(''abcde'', jack_game\<lparr>players_slave := Some ''Ann'', sockets_slave := Some 1\<rparr>)],
      socks = (\<lambda>k. if k = 0 then \<lparr>gameID = Some ''abcde'', role = Some Master\<rparr>
                    else if k = 1 then \<lparr>gameID = Some ''abcde'', role = Some Slave\<rparr>
                    else lobby),
      phase = three_open\<rparr>"

definition st_rejoined :: "nat state" where
  "st_rejoined =
     \<lparr>games = [(''abcde'', jack_game\<lparr>players_slave := Some ''Bob'', sockets_slave := Some 2\<rparr>)],
      socks = (\<lambda>k. if k = 0 then \<lparr>gameID = Some ''abcde'', role = Some Master\<rparr>
                    else if k = 1 \<or> k = 2 then \<lparr>gameID = Some ''abcde'', role = Some Slave\<rparr>
                    else lobby),
      phase = three_open\<rparr>"

definition st_stale :: "nat state" where
  "st_stale =
     \<lparr>games = [],
      socks = (\<lambda>k. if k = 1 \<or> k = 2 then \<lparr>gameID = Some ''abcde'', role = Some Slave\<rparr>
                    else lobby),
      phase = three_open(2 := Closed)\<rparr>"

definition st_unnamed :: "nat state" where
  "st_unnamed =
     \<lparr>games = [(''abcde'', jack_game\<lparr>sockets_slave := Some 1\<rparr>)],
      socks = (\<lambda>k. if k = 0 then \<lparr>gameID = Some ''abcde'', role = Some Master\<rparr>
                    else if k = 1 then \<lparr>gameID = Some ''abcde'', role = Some Slave\<rparr>
                    else lobby),
      phase = three_open\<rparr>"

definition tr_created :: "nat input list" where
  "tr_created = [Connect 0, Connect 1, Connect 2, CreateGame 0 (Some ''Jack'') 2 0 [''abcde''] 100 101]"

definition jack_listing :: listing where
  "jack_listing = \<lparr>l_id = ''abcde'', l_name = ''Jack's Game'', l_created = 101, l_difficulty = 2\<rparr>"

definition tr_two :: "nat input list" where
  "tr_two = [Connect 0, Connect 1, CreateGame 0 (Some ''Jack'') 2 0 [''abcde''] 100 101,
             CreateGame 1 (Some ''Chris'') 3 5 [''abcde'', ''fghij''] 200 201]"

lemmas ex_defs = lobby_def jack_game_def three_open_def st_created_def st_joined_def
  st_rejoined_def st_stale_def st_unnamed_def tr_created_def jack_listing_def

lemmas op_defs = init_def connection_def CG_def JG_def M_def ET_def disconnect_def LG_def
  hasOwnProperty_def prop_key_def falsy_def gameName_def slice_last_def Let_def

section \<open>The handlers, case by case\<close>

subsection \<open>Creating\<close>

lemma gameName_cases:
  "gameName p = (if p \<noteq> [] \<and> last p = CHR ''s'' then p @ ''' Game'' else p @ '''s Game'')"
  by (simp add: gameName_def slice_last_def)

lemma CG_null_name:
  "genID (games s) draws = Some gid \<Longrightarrow> CG s socket None diff d draws t1 t2 = Uncaught s []"
  by (simp add: CG_def)

lemma genID_find: "genID gs draws = find (\<lambda>c. \<not> hasOwnProperty gs c) draws"
  by (induction draws) auto

lemma genID_fresh: "genID gs draws = Some c \<Longrightarrow> map_of gs c = None \<and> c \<in> set draws"
  by (induction draws) (auto simp: hasOwnProperty_def split: if_splits)

lemma update_fresh: "map_of al k = None \<Longrightarrow> AList.update k v al = al @ [(k, v)]"
  by (induction al) (auto split: if_splits)

lemma update_present: "map_of al k = Some v \<Longrightarrow> map fst (AList.update k v' al) = map fst al"
  by (induction al) (auto split: if_splits)

subsection \<open>Joining\<close>

lemma err_distinct: "err_not_found \<noteq> err_nickname"
  by (simp add: err_not_found_def err_nickname_def)

lemma JG_not_found:
  "map_of (games s) gid = None \<Longrightarrow> JG s socket gid p = Done s [RespondErr err_not_found]"
  by (simp add: JG_def)

lemma JG_collision:
  "map_of (games s) gid = Some g \<Longrightarrow> p = Some (players_master g) \<Longrightarrow>
   JG s socket gid p = Done s [RespondErr err_nickname]"
  by (simp add: JG_def)

lemma JG_joined:
  "map_of (games s) gid = Some g \<Longrightarrow> p \<noteq> Some (players_master g) \<Longrightarrow>
   JG s socket gid p =
     Done (s\<lparr>games := AList.update gid (g\<lparr>players_slave := p, sockets_slave := Some socket\<rparr>) (games s),
             socks := (socks s)(socket := (socks s socket)\<lparr>gameID := Some gid, role := Some Slave\<rparr>)\<rparr>)
          [RespondOk, Emit (sockets_master g) GS, Emit socket (PP (data g))]"
  by (simp add: JG_def Let_def)

subsection \<open>Moving and ending a turn\<close>

lemma M_forbidden:
  "role (socks s socket) \<noteq> Some Slave \<Longrightarrow> M s socket d = Done s [RespondErr err_not_slave]"
  by (simp add: M_def)

lemma ET_forbidden:
  "role (socks s socket) \<noteq> Some Master \<Longrightarrow> ET s socket d = Done s [RespondErr err_not_master]"
  by (simp add: ET_def)

lemma M_accepted:
  "role (socks s socket) = Some Slave \<Longrightarrow> gameID (socks s socket) = Some gid \<Longrightarrow>
   map_of (games s) gid = Some g \<Longrightarrow>
   M s socket d = Done (s\<lparr>games := AList.update gid (g\<lparr>data := d\<rparr>) (games s)\<rparr>)
                    [RespondOk, Emit (sockets_master g) (PP d)]"
  by (simp add: M_def prop_key_def Let_def)

lemma M_throws:
  "role (socks s socket) = Some Slave \<Longrightarrow>
   map_of (games s) (prop_key (gameID (socks s socket))) = None \<Longrightarrow>
   M s socket d = Uncaught s []"
  by (simp add: M_def Let_def)

lemma ET_accepted:
  "role (socks s socket) = Some Master \<Longrightarrow> gameID (socks s socket) = Some gid \<Longrightarrow>
   map_of (games s) gid = Some g \<Longrightarrow> sockets_slave g = Some j \<Longrightarrow>
   ET s socket d = Done (s\<lparr>games := AList.update gid (g\<lparr>data := d\<rparr>) (games s)\<rparr>)
                     [RespondOk, Emit j (PP d)]"
  by (simp add: ET_def prop_key_def Let_def)

lemma ET_throws_no_slave:
  "role (socks s socket) = Some Master \<Longrightarrow> gameID (socks s socket) = Some gid \<Longrightarrow>
   map_of (games s) gid = Some g \<Longrightarrow> sockets_slave g = None \<Longrightarrow>
   ET s socket d = Uncaught (s\<lparr>games := AList.update gid (g\<lparr>data := d\<rparr>) (games s)\<rparr>)
                     [RespondOk]"
  by (simp add: ET_def prop_key_def Let_def)

subsection \<open>Disconnecting\<close>

lemma disconnect_lobby:
  "falsy (gameID (socks s socket)) \<Longrightarrow> disconnect s socket = Done s []"
  by (simp add: disconnect_def)

lemma disconnect_throws:
  "gameID (socks s socket) = Some gid \<Longrightarrow> gid \<noteq> [] \<Longrightarrow> map_of (games s) gid = None \<Longrightarrow>
   disconnect s socket = Uncaught s []"
  by (simp add: disconnect_def falsy_def prop_key_def)

lemma disconnect_alone:
  "gameID (socks s socket) = Some gid \<Longrightarrow> gid \<noteq> [] \<Longrightarrow> map_of (games s) gid = Some g \<Longrightarrow>
   role (socks s socket) = Some Master \<Longrightarrow> sockets_slave g = None \<Longrightarrow>
   disconnect s socket = Done (s\<lparr>games := AList.delete gid (games s)\<rparr>) []"
  by (simp add: disconnect_def falsy_def prop_key_def)

lemma disconnect_opponent:
  "gameID (socks s socket) = Some gid \<Longrightarrow> gid \<noteq> [] \<Longrightarrow> map_of (games s) gid = Some g \<Longrightarrow>
   (if role (socks s socket) = Some Master then sockets_slave g else Some (sockets_master g)) = Some opp \<Longrightarrow>
   disconnect s socket =
     Done (s\<lparr>socks := (socks s)(opp := (socks s opp)\<lparr>gameID := None, role := None\<rparr>),
             games := AList.delete gid (games s)\<rparr>) [Emit opp EG]"
  by (simp add: disconnect_def falsy_def prop_key_def Let_def)

section \<open>Invariants of the registry\<close>

lemma slaves_bound_update:
  "slaves_bound gs \<Longrightarrow> sockets_slave g \<noteq> None \<or> players_slave g = None \<Longrightarrow>
   slaves_bound (AList.update k g gs)"
  by (induction gs) (auto simp: slaves_bound_def)

lemma slaves_bound_delete: "slaves_bound gs \<Longrightarrow> slaves_bound (AList.delete k gs)"
  by (induction gs) (auto simp: slaves_bound_def)

lemma slaves_bound_map_of:
  "slaves_bound gs \<Longrightarrow> map_of gs k = Some g \<Longrightarrow> sockets_slave g = None \<Longrightarrow>
   players_slave g = None"
  by (auto simp: slaves_bound_def list_all_iff dest!: map_of_SomeD)

lemma slaves_bound_data:
  "slaves_bound gs \<Longrightarrow> map_of gs k = Some g \<Longrightarrow> slaves_bound (AList.update k (g\<lparr>data := d\<rparr>) gs)"
  by (rule slaves_bound_update) (auto dest: slaves_bound_map_of)





lemma inv_init: "registry_inv init"
  by (simp add: registry_inv_def init_def slaves_bound_def)

lemma inv_CG: "registry_inv s \<Longrightarrow> CG s k p diff d draws t1 t2 = Done s' outs \<Longrightarrow> registry_inv s'"
  by (auto simp: registry_inv_def CG_def Let_def AList.distinct_update slaves_bound_update
           split: option.splits)

lemma inv_JG: "registry_inv s \<Longrightarrow> JG s k gid p = Done s' outs \<Longrightarrow> registry_inv s'"
  by (auto simp: registry_inv_def JG_def Let_def AList.distinct_update slaves_bound_update
           split: option.splits if_splits)

lemma inv_M: "registry_inv s \<Longrightarrow> M s k d = Done s' outs \<Longrightarrow> registry_inv s'"
  by (auto simp: registry_inv_def M_def Let_def AList.distinct_update slaves_bound_data
           simp del: map_of_eq_Some_iff split: option.splits if_splits)

lemma inv_ET: "registry_inv s \<Longrightarrow> ET s k d = Done s' outs \<Longrightarrow> registry_inv s'"
  by (auto simp: registry_inv_def ET_def Let_def AList.distinct_update slaves_bound_data
           simp del: map_of_eq_Some_iff split: option.splits if_splits)

lemma inv_disconnect: "registry_inv s \<Longrightarrow> disconnect s k = Done s' outs \<Longrightarrow> registry_inv s'"
  by (auto simp: registry_inv_def disconnect_def Let_def AList.distinct_delete slaves_bound_delete
           split: option.splits if_splits)

lemma inv_phase: "registry_inv (s\<lparr>phase := f\<rparr>) = registry_inv s"
  by (simp add: registry_inv_def)

lemma inv_exec: "registry_inv s \<Longrightarrow> exec s i = Done s' outs \<Longrightarrow> registry_inv s'"
proof (cases i)
  case (Connect k)
  then show "registry_inv s \<Longrightarrow> exec s i = Done s' outs \<Longrightarrow> registry_inv s'"
    by (auto simp: registry_inv_def connection_def split: if_splits)
next
  case (ListGames k)
  then show "registry_inv s \<Longrightarrow> exec s i = Done s' outs \<Longrightarrow> registry_inv s'"
    by (auto simp: LG_def split: if_splits)
next
  case (Disconnect k)
  then show "registry_inv s \<Longrightarrow> exec s i = Done s' outs \<Longrightarrow> registry_inv s'"
    using inv_disconnect [of "s\<lparr>phase := (phase s)(k := Closed)\<rparr>" k s' outs]
    by (auto simp: inv_phase split: if_splits)
qed (auto dest: inv_CG inv_JG inv_M inv_ET split: if_splits)

lemma reachable_inv: "reachable s \<Longrightarrow> registry_inv s"
  by (induction rule: reachable.induct) (auto intro: inv_init inv_exec)

section \<open>Runs\<close>

lemma run_append:
  "run s acc tr = Done s' outs \<Longrightarrow> run s acc (tr @ tr') = run s' outs tr'"
  by (induction tr arbitrary: s acc) (auto split: result.splits)

lemma run_reachable: "reachable s \<Longrightarrow> run s acc tr = Done s' outs \<Longrightarrow> reachable s'"
proof (induction tr arbitrary: s acc)
  case Nil
  then show ?case by simp
next
  case (Cons i tr)
  from Cons.prems(2) obtain s1 o1 where e: "exec s i = Done s1 o1"
    and r: "run s1 (acc @ o1) tr = Done s' outs"
    by (auto split: result.splits)
  from Cons.prems(1) e have "reachable s1" by (rule reachable.step)
  from Cons.IH [OF this r] show ?case .
qed




lemma reachable_run: "run init [] tr = Done s outs \<Longrightarrow> reachable s"
  using run_reachable [OF reachable.start] by blast

text \<open>Without a disconnect, a run only appends keys: the codes it hands out.\<close>

lemma codes_of_append: "codes_of (xs @ ys) = codes_of xs @ codes_of ys"
  by (induction xs rule: codes_of.induct) auto

lemma CG_keys:
  assumes "CG s k p diff d draws t1 t2 = Done s' outs"
  shows "\<exists>gid. genID (games s) draws = Some gid \<and> codes_of outs = [gid]
           \<and> map fst (games s') = map fst (games s) @ [gid]"
proof -
  from assms obtain gid where gid: "genID (games s) draws = Some gid"
    by (auto simp: CG_def split: option.splits)
  then have "map_of (games s) gid = None" by (simp add: genID_fresh)
  with assms gid show ?thesis
    by (auto simp: CG_def Let_def update_fresh split: option.splits)
qed

lemma JG_keys: "JG s k gid p = Done s' outs \<Longrightarrow> codes_of outs = [] \<and> map fst (games s') = map fst (games s)"
  by (auto simp: JG_def Let_def update_present simp del: map_of_eq_Some_iff
           split: option.splits if_splits)

lemma M_keys: "M s k d = Done s' outs \<Longrightarrow> codes_of outs = [] \<and> map fst (games s') = map fst (games s)"
  by (auto simp: M_def Let_def update_present simp del: map_of_eq_Some_iff
           split: option.splits if_splits)

lemma ET_keys: "ET s k d = Done s' outs \<Longrightarrow> codes_of outs = [] \<and> map fst (games s') = map fst (games s)"
  by (auto simp: ET_def Let_def update_present simp del: map_of_eq_Some_iff
           split: option.splits if_splits)

lemma exec_keys:
  assumes "exec s i = Done s' outs" and "\<not> is_disconnect i"
  shows "map fst (games s') = map fst (games s) @ codes_of outs"
proof (cases i)
  case (Connect k)
  with assms show ?thesis by (auto simp: connection_def split: if_splits)
next
  case (ListGames k)
  with assms show ?thesis by (auto simp: LG_def split: if_splits)
next
  case (CreateGame k p diff d draws t1 t2)
  with assms show ?thesis by (auto dest: CG_keys split: if_splits)
next
  case (JoinGame k gid p)
  with assms show ?thesis by (auto dest: JG_keys split: if_splits)
next
  case (Move k d)
  with assms show ?thesis by (auto dest: M_keys split: if_splits)
next
  case (EndTurn k d)
  with assms show ?thesis by (auto dest: ET_keys split: if_splits)
next
  case (Disconnect k)
  with assms show ?thesis by simp
qed

lemma run_keys:
  "run s acc tr = Done s' outs \<Longrightarrow> list_all (\<lambda>i. \<not> is_disconnect i) tr \<Longrightarrow>
   \<exists>new. codes_of outs = codes_of acc @ new \<and> map fst (games s') = map fst (games s) @ new"
proof (induction tr arbitrary: s acc)
  case Nil
  then show ?case by simp
next
  case (Cons i tr)
  from Cons.prems(1) obtain s1 o1 where e: "exec s i = Done s1 o1"
    and r: "run s1 (acc @ o1) tr = Done s' outs"
    by (auto split: result.splits)
  from Cons.prems(2) have i: "\<not> is_disconnect i" and rest: "list_all (\<lambda>i. \<not> is_disconnect i) tr"
    by simp_all
  from Cons.IH [OF r rest] obtain new where
    "codes_of outs = codes_of (acc @ o1) @ new" "map fst (games s') = map fst (games s1) @ new"
    by blast
  with exec_keys [OF e i] show ?case by (auto simp: codes_of_append)
qed

section \<open>The listing\<close>

lemma collect_map_filter: "collect gs ks acc = acc @ List.map_filter (entry gs) ks"
  by (induction ks arbitrary: acc)
     (auto simp: entry_def List.map_filter_simps split: option.splits)





lemma set_map_filter: "set (List.map_filter f xs) = {y. \<exists>x\<in>set xs. f x = Some y}"
  by (induction xs) (auto simp: List.map_filter_simps split: option.splits)

lemma listed_is_key:
  "e \<in> set (collect gs (for_in_keys gs) []) \<Longrightarrow> map_of gs (l_id e) \<noteq> None"
  by (auto simp: collect_map_filter set_map_filter entry_def split: option.splits if_splits)

section \<open>The example states are reached\<close>

lemma run_created: "run init [] tr_created = Done st_created [RespondGame jack_listing]"
  by (simp add: ex_defs op_defs fun_eq_iff)

lemma exec_joined:
  "exec st_created (JoinGame 1 ''abcde'' (Some ''Ann'')) = Done st_joined [RespondOk, Emit 0 GS, Emit 1 (PP 0)]"
  by (simp add: ex_defs op_defs fun_eq_iff)

lemma exec_rejoined:
  "exec st_joined (JoinGame 2 ''abcde'' (Some ''Bob'')) = Done st_rejoined [RespondOk, Emit 0 GS, Emit 2 (PP 0)]"
  by (simp add: ex_defs op_defs fun_eq_iff)

lemma exec_stale:
  "exec st_rejoined (Disconnect 2) = Done st_stale [Emit 0 EG]"
  by (simp add: ex_defs op_defs fun_eq_iff)


lemma reachable_created: "reachable st_created"
  using run_created by (rule reachable_run)

lemma reachable_joined: "reachable st_joined"
  using reachable_created exec_joined by (rule reachable.step)

lemma reachable_rejoined: "reachable st_rejoined"
  using reachable_joined exec_rejoined by (rule reachable.step)

lemma reachable_stale: "reachable st_stale"
  using reachable_rejoined exec_stale by (rule reachable.step)


section \<open>Disconnecting from a registered game\<close>

text \<open>
  When the caller's game is still in \<^verbatim>\<open>games\<close>, \<^verbatim>\<open>disconnect\<close> tells the opponent (if
  there is one) \<^verbatim>\<open>EG\<close> once, clears the opponent's fields and deletes the game; the code
  is then unknown to \<^verbatim>\<open>JG\<close> and absent from every answer of \<^verbatim>\<open>LG\<close>.
\<close>

lemma disconnect_cleanup:
  assumes gid: "gameID (socks s socket) = Some gid" "gid \<noteq> []"
    and g: "map_of (games s) gid = Some g"
    and opp: "opponent = (if role (socks s socket) = Some Master then sockets_slave g
                          else Some (sockets_master g))"
  shows "\<exists>s'. disconnect s socket =
                 Done s' (case opponent of None \<Rightarrow> [] | Some opp \<Rightarrow> [Emit opp EG])
           \<and> games s' = AList.delete gid (games s)
           \<and> socks s' = (case opponent of None \<Rightarrow> socks s
                          | Some opp \<Rightarrow> (socks s)(opp := \<lparr>gameID = None, role = None\<rparr>))
           \<and> JG s' k gid p = Done s' [RespondErr err_not_found]
           \<and> (\<forall>L. LG s' k = Done s' [RespondList L] \<longrightarrow> gid \<notin> l_id ` set L)"
proof (cases opponent)
  case None
  with opp have "role (socks s socket) = Some Master" "sockets_slave g = None"
    by (auto split: if_splits)
  with gid g have d: "disconnect s socket = Done (s\<lparr>games := AList.delete gid (games s)\<rparr>) []"
    by (simp add: disconnect_alone)
  have "map_of (AList.delete gid (games s)) gid = None" by (simp add: AList.delete_conv')
  with d None show ?thesis
    by (auto simp: JG_not_found LG_def dest!: listed_is_key)
next
  case (Some opp')
  with opp gid g have d: "disconnect s socket =
     Done (s\<lparr>socks := (socks s)(opp' := (socks s opp')\<lparr>gameID := None, role := None\<rparr>),
             games := AList.delete gid (games s)\<rparr>) [Emit opp' EG]"
    by (simp add: disconnect_opponent)
  have "map_of (AList.delete gid (games s)) gid = None" by (simp add: AList.delete_conv')
  with d Some show ?thesis
    by (auto simp: JG_not_found LG_def dest!: listed_is_key)
qed

section \<open>The claims\<close>

subsection \<open>C1: protocol violations and uncaught failures\<close>

text \<open>
  C1 says that every protocol violation is answered with \<^verbatim>\<open>{ok: false, error}\<close>, that
  no state changes before validation fails, and that no handler ever raises an uncaught
  failure. The first two hold (\<open>JG_not_found\<close>, \<open>JG_collision\<close>, \<open>M_forbidden\<close>,
  \<open>ET_forbidden\<close>: the state comes back unchanged). The third does not. In the reachable
  state \<open>st_created\<close>, \<^verbatim>\<open>ET\<close> from the creator stores the data, answers \<^verbatim>\<open>{ok: true}\<close> and
  then throws on \<^verbatim>\<open>null.emit\<close>, nobody having joined. In the reachable state \<open>st_stale\<close>,
  client 1 is still marked as the second player of a game that is gone: its \<^verbatim>\<open>M\<close> and
  its \<^verbatim>\<open>disconnect\<close> throw on \<^verbatim>\<open>games[gameID]\<close> being \<^verbatim>\<open>undefined\<close>. (\<^verbatim>\<open>CG\<close> with the
  name \<^verbatim>\<open>null\<close> throws as well: \<open>CG_null_name\<close>.)
\<close>

theorem handlers_throw:
  "exec st_created (EndTurn 0 7) =
     Uncaught (st_created\<lparr>games := [(''abcde'', jack_game\<lparr>data := 7\<rparr>)]\<rparr>) [RespondOk]
   \<and> exec st_stale (Move 1 7) = Uncaught st_stale []
   \<and> exec st_stale (Disconnect 1) = Uncaught (st_stale\<lparr>phase := (phase st_stale)(1 := Closed)\<rparr>) []"
  by (simp add: ex_defs op_defs fun_eq_iff)

subsection \<open>C2: end of turn\<close>

text \<open>
  C2 says that \<^verbatim>\<open>ET\<close> from a connection whose role is master always succeeds: it stores
  the data, tells the second player to play and answers ok. Client 0 connects, creates
  a game and ends its turn before anybody has joined: the data is stored, the answer
  \<^verbatim>\<open>{ok: true}\<close> is sent, and the emit to \<^verbatim>\<open>games[gameID].sockets.slave\<close>, which is
  \<^verbatim>\<open>null\<close>, throws. (From another role \<^verbatim>\<open>ET\<close> is refused and changes nothing:
  \<open>ET_forbidden\<close>; with a second player present it succeeds: \<open>ET_accepted\<close>.)
\<close>

theorem ET_without_joiner:
  "run init [] (tr_created @ [EndTurn 0 7]) =
     Uncaught (st_created\<lparr>games := [(''abcde'', jack_game\<lparr>data := 7\<rparr>)]\<rparr>)
       [RespondGame jack_listing, RespondOk]"
  by (simp add: run_append [OF run_created]) (simp add: ex_defs op_defs)

subsection \<open>C3: move\<close>

text \<open>
  C3 says that \<^verbatim>\<open>M\<close> succeeds exactly when the caller's role is slave and its game code
  is set, and is refused otherwise. Clients 1 and 2 both join the game of client 0;
  client 2 disconnects, which deletes the game and clears client 0; client 1 keeps its
  role and its code. Its next \<^verbatim>\<open>M\<close> passes the role check and throws on
  \<^verbatim>\<open>games[gameID].data = gameData\<close>: no answer is sent. (From another role \<^verbatim>\<open>M\<close> is
  refused and changes nothing: \<open>M_forbidden\<close>; while the game is registered it
  succeeds: \<open>M_accepted\<close>.)
\<close>

theorem M_stale_session:
  "run init []
     (tr_created @ [JoinGame 1 ''abcde'' (Some ''Ann''), JoinGame 2 ''abcde'' (Some ''Bob''), Disconnect 2,
                    Move 1 7]) =
   Uncaught st_stale
     [RespondGame jack_listing, RespondOk, Emit 0 GS, Emit 1 (PP 0), RespondOk, Emit 0 GS,
      Emit 2 (PP 0), Emit 0 EG]"
  by (simp add: run_append [OF run_created] exec_joined exec_rejoined exec_stale del: exec.simps)
     (simp add: ex_defs op_defs fun_eq_iff)

subsection \<open>C4: alternation of turns\<close>

text \<open>
  C4 says that turns strictly alternate: right after a join only the second player's
  \<^verbatim>\<open>M\<close> is accepted, and an out-of-turn \<^verbatim>\<open>M\<close> or \<^verbatim>\<open>ET\<close> is refused and leaves the data
  unchanged. The handlers check the caller's role and nothing else; the server keeps no
  record of whose turn it is. Right after Ann's join, the creator's \<^verbatim>\<open>ET\<close> is accepted:
  it replaces the data by 7 and tells Ann to play.
\<close>

theorem out_of_turn_accepted:
  "run init [] (tr_created @ [JoinGame 1 ''abcde'' (Some ''Ann''), EndTurn 0 7]) =
     Done (st_joined\<lparr>games := [(''abcde'', jack_game\<lparr>players_slave := Some ''Ann'',
                                   sockets_slave := Some 1, data := 7\<rparr>)]\<rparr>)
       [RespondGame jack_listing, RespondOk, Emit 0 GS, Emit 1 (PP 0), RespondOk, Emit 1 (PP 7)]"
  by (simp add: run_append [OF run_created] exec_joined del: exec.simps)
     (simp add: ex_defs op_defs fun_eq_iff)

text \<open>
  C4 as amended: \<^verbatim>\<open>M\<close> from a caller whose role is not slave, and \<^verbatim>\<open>ET\<close> from a caller
  whose role is not master, are refused and leave the whole state, so the data,
  unchanged. Right after a successful join the second player's \<^verbatim>\<open>M\<close> is accepted: it
  stores the data and tells the first player to play. After that \<^verbatim>\<open>M\<close>, \<^verbatim>\<open>ET\<close> from a
  connection bound to the game as master is accepted: it stores the data and tells the
  second player to play. Nothing is said about the order of turns.
\<close>

theorem turn_roles:
  "(role (socks s k) \<noteq> Some Slave \<longrightarrow> M s k d = Done s [RespondErr err_not_slave])
   \<and> (role (socks s k) \<noteq> Some Master \<longrightarrow> ET s k d = Done s [RespondErr err_not_master])
   \<and> (\<forall>s1 rest. JG s j gid p = Done s1 (RespondOk # rest) \<longrightarrow>
        (\<exists>g s2. map_of (games s1) gid = Some g \<and> sockets_slave g = Some j
           \<and> M s1 j d = Done s2 [RespondOk, Emit (sockets_master g) (PP d)]
           \<and> map_of (games s2) gid = Some (g\<lparr>data := d\<rparr>)
           \<and> (\<forall>i d'. gameID (socks s2 i) = Some gid \<and> role (socks s2 i) = Some Master \<longrightarrow>
                 (\<exists>s3. ET s2 i d' = Done s3 [RespondOk, Emit j (PP d')]
                    \<and> map_of (games s3) gid = Some (g\<lparr>data := d'\<rparr>)))))"
proof (intro conjI allI impI)
  fix s1 rest
  assume join: "JG s j gid p = Done s1 (RespondOk # rest)"
  then obtain g0 where g0: "map_of (games s) gid = Some g0" "p \<noteq> Some (players_master g0)"
    by (auto simp: JG_def split: option.splits if_splits)
  define g where "g = g0\<lparr>players_slave := p, sockets_slave := Some j\<rparr>"
  from join g0 have s1: "s1 = s\<lparr>games := AList.update gid g (games s),
             socks := (socks s)(j := (socks s j)\<lparr>gameID := Some gid, role := Some Slave\<rparr>)\<rparr>"
    by (simp add: JG_joined g_def)
  have g1: "map_of (games s1) gid = Some g" by (simp add: s1 AList.update_conv')
  have c1: "role (socks s1 j) = Some Slave" "gameID (socks s1 j) = Some gid" by (simp_all add: s1)
  define s2 where "s2 = s1\<lparr>games := AList.update gid (g\<lparr>data := d\<rparr>) (games s1)\<rparr>"
  have m: "M s1 j d = Done s2 [RespondOk, Emit (sockets_master g) (PP d)]"
    unfolding s2_def by (rule M_accepted [OF c1 g1])
  have g2: "map_of (games s2) gid = Some (g\<lparr>data := d\<rparr>)" by (simp add: s2_def AList.update_conv')
  have et: "\<exists>s3. ET s2 i d' = Done s3 [RespondOk, Emit j (PP d')]
                    \<and> map_of (games s3) gid = Some (g\<lparr>data := d'\<rparr>)"
    if "gameID (socks s2 i) = Some gid \<and> role (socks s2 i) = Some Master" for i d'
  proof -
    have "ET s2 i d' = Done (s2\<lparr>games := AList.update gid (g\<lparr>data := d, data := d'\<rparr>) (games s2)\<rparr>)
                     [RespondOk, Emit j (PP d')]"
      by (rule ET_accepted [OF _ _ g2]) (use that in \<open>simp_all add: g_def\<close>)
    then show ?thesis by (simp add: AList.update_conv')
  qed
  show "\<exists>g s2. map_of (games s1) gid = Some g \<and> sockets_slave g = Some j
           \<and> M s1 j d = Done s2 [RespondOk, Emit (sockets_master g) (PP d)]
           \<and> map_of (games s2) gid = Some (g\<lparr>data := d\<rparr>)
           \<and> (\<forall>i d'. gameID (socks s2 i) = Some gid \<and> role (socks s2 i) = Some Master \<longrightarrow>
                 (\<exists>s3. ET s2 i d' = Done s3 [RespondOk, Emit j (PP d')]
                    \<and> map_of (games s3) gid = Some (g\<lparr>data := d'\<rparr>)))"
    using g1 m g2 et by (intro exI [of _ g] exI [of _ s2]) (simp add: g_def)
qed (simp_all add: M_forbidden ET_forbidden)

theorem turn_roles_witness:
  "role (socks st_created 0) \<noteq> Some Slave
   \<and> M st_created 0 7 = Done st_created [RespondErr err_not_slave]
   \<and> role (socks st_joined 1) \<noteq> Some Master
   \<and> ET st_joined 1 7 = Done st_joined [RespondErr err_not_master]
   \<and> JG st_created 1 ''abcde'' (Some ''Ann'') = Done st_joined [RespondOk, Emit 0 GS, Emit 1 (PP 0)]
   \<and> (\<exists>s2. M st_joined 1 7 = Done s2 [RespondOk, Emit 0 (PP 7)]
         \<and> gameID (socks s2 0) = Some ''abcde'' \<and> role (socks s2 0) = Some Master
         \<and> (\<exists>s3. ET s2 0 9 = Done s3 [RespondOk, Emit 1 (PP 9)]))"
proof -
  have j: "JG st_created 1 ''abcde'' (Some ''Ann'') = Done st_joined [RespondOk, Emit 0 GS, Emit 1 (PP 0)]"
    using exec_joined by (simp add: ex_defs)
  have r0: "role (socks st_created 0) \<noteq> Some Slave" "role (socks st_joined 1) \<noteq> Some Master"
    by (simp_all add: ex_defs)
  have g: "map_of (games st_joined) ''abcde'' =
     Some (jack_game\<lparr>players_slave := Some ''Ann'', sockets_slave := Some 1\<rparr>)"
    by (simp add: ex_defs)
  from turn_roles [where s = st_created and k = 0 and d = 7] r0(1)
  have m0: "M st_created 0 7 = Done st_created [RespondErr err_not_slave]" by simp
  from turn_roles [where s = st_joined and k = 1 and d = 7] r0(2)
  have e1: "ET st_joined 1 7 = Done st_joined [RespondErr err_not_master]" by simp
  note u = turn_roles [where s = st_created and j = 1 and gid = "''abcde''" and p = "Some ''Ann''"
      and d = 7, THEN conjunct2, THEN conjunct2, THEN spec, THEN spec, THEN mp, OF j]
  from u obtain g' s2 where g': "map_of (games st_joined) ''abcde'' = Some g'"
    and m: "M st_joined 1 7 = Done s2 [RespondOk, Emit (sockets_master g') (PP 7)]"
    and e: "\<forall>i d'. gameID (socks s2 i) = Some ''abcde'' \<and> role (socks s2 i) = Some Master \<longrightarrow>
                 (\<exists>s3. ET s2 i d' = Done s3 [RespondOk, Emit 1 (PP d')]
                    \<and> map_of (games s3) ''abcde'' = Some (g'\<lparr>data := d'\<rparr>))"
    by (elim exE conjE)
  from g g' have "sockets_master g' = 0" by (auto simp: jack_game_def)
  with m have s2: "M st_joined 1 7 = Done s2 [RespondOk, Emit 0 (PP 7)]" by simp
  from s2 have c: "gameID (socks s2 0) = Some ''abcde'' \<and> role (socks s2 0) = Some Master"
    by (auto simp: ex_defs op_defs)
  with e have "\<exists>s3. ET s2 0 9 = Done s3 [RespondOk, Emit 1 (PP 9)]" by blast
  with r0 m0 e1 j s2 c show ?thesis by blast
qed

subsection \<open>C5: disconnect\<close>

text \<open>
  C5 says that \<^verbatim>\<open>disconnect\<close> does nothing for a connection without a game, and
  otherwise notifies and clears the opponent, if any, and removes the game. That is what
  happens while the game is registered (\<open>disconnect_lobby\<close>, \<open>disconnect_cleanup\<close>). After
  clients 1 and 2 both joined the game of client 0 and client 2 disconnected, client 1
  still carries the code of the deleted game: its \<^verbatim>\<open>disconnect\<close> throws on
  \<^verbatim>\<open>games[gameID].sockets\<close>, \<^verbatim>\<open>games[gameID]\<close> being \<^verbatim>\<open>undefined\<close>.
\<close>

theorem disconnect_stale_session:
  "run init []
     (tr_created @ [JoinGame 1 ''abcde'' (Some ''Ann''), JoinGame 2 ''abcde'' (Some ''Bob''), Disconnect 2,
                    Disconnect 1]) =
   Uncaught (st_stale\<lparr>phase := (phase st_stale)(1 := Closed)\<rparr>)
     [RespondGame jack_listing, RespondOk, Emit 0 GS, Emit 1 (PP 0), RespondOk, Emit 0 GS,
      Emit 2 (PP 0), Emit 0 EG]"
  by (simp add: run_append [OF run_created] exec_joined exec_rejoined exec_stale del: exec.simps)
     (simp add: ex_defs op_defs fun_eq_iff)

subsection \<open>C6: join\<close>

text \<open>
  C6: \<^verbatim>\<open>JG\<close> answers that the game could not be found exactly when the code is not a key
  of \<^verbatim>\<open>games\<close>; it answers that the nickname is in use exactly when the code is a key and
  the name equals the first player's; in both cases the state is unchanged. Otherwise
  it records the name (as given, be it \<^verbatim>\<open>null\<close>) and the socket of the second player,
  sets the caller's fields to the code and the role slave, answers ok, emits \<^verbatim>\<open>GS\<close> to
  the first player and \<^verbatim>\<open>PP\<close> with the game's current data to the caller.
\<close>

theorem JG_result:
  "(JG s socket gid p = Done s [RespondErr err_not_found] \<longleftrightarrow> map_of (games s) gid = None)
   \<and> (JG s socket gid p = Done s [RespondErr err_nickname] \<longleftrightarrow>
        (\<exists>g. map_of (games s) gid = Some g \<and> p = Some (players_master g)))
   \<and> (\<forall>g. map_of (games s) gid = Some g \<and> p \<noteq> Some (players_master g) \<longrightarrow>
        JG s socket gid p =
          Done (s\<lparr>games := AList.update gid
                     (g\<lparr>players_slave := p, sockets_slave := Some socket\<rparr>) (games s),
                  socks := (socks s)
                     (socket := (socks s socket)\<lparr>gameID := Some gid, role := Some Slave\<rparr>)\<rparr>)
            [RespondOk, Emit (sockets_master g) GS, Emit socket (PP (data g))])"
proof (cases "map_of (games s) gid")
  case None
  then show ?thesis by (simp add: JG_not_found err_distinct)
next
  case (Some g)
  show ?thesis
  proof (cases "p = Some (players_master g)")
    case True
    with Some show ?thesis by (simp add: JG_collision err_distinct [symmetric])
  next
    case False
    with Some show ?thesis by (simp add: JG_joined)
  qed
qed

theorem JG_result_witness:
  "map_of (games st_created) ''abcde'' = Some jack_game
   \<and> Some ''Ann'' \<noteq> Some (players_master jack_game)
   \<and> JG st_created 1 ''abcde'' (Some ''Ann'') = Done st_joined [RespondOk, Emit 0 GS, Emit 1 (PP 0)]
   \<and> JG st_created 1 ''zzzzz'' (Some ''Ann'') = Done st_created [RespondErr err_not_found]
   \<and> JG st_created 1 ''abcde'' (Some ''Jack'') = Done st_created [RespondErr err_nickname]"
  using JG_result [of st_created 1 "''abcde''" "Some ''Ann''"]
    JG_result [of st_created 1 "''zzzzz''" "Some ''Ann''"]
    JG_result [of st_created 1 "''abcde''" "Some ''Jack''"]
  by (simp add: ex_defs fun_eq_iff)

subsection \<open>C7: codes are unique\<close>

text \<open>
  C7: the loop of \<^verbatim>\<open>CG\<close> returns the first random draw that is not a key of \<^verbatim>\<open>games\<close>;
  in every reachable state the keys of \<^verbatim>\<open>games\<close> are pairwise distinct; and from a
  reachable state, the codes handed out by any sequence of commands that create games
  (or do anything but disconnect) are pairwise distinct, differ from every key already
  present, and are exactly the keys added.
\<close>

theorem codes_unique:
  "genID gs draws = find (\<lambda>c. \<not> hasOwnProperty gs c) draws
   \<and> (reachable s \<longrightarrow> distinct (map fst (games s)))
   \<and> (reachable s \<and> list_all (\<lambda>i. \<not> is_disconnect i) tr \<and> run s [] tr = Done s' outs \<longrightarrow>
        distinct (codes_of outs) \<and> set (codes_of outs) \<inter> fst ` set (games s) = {}
        \<and> map fst (games s') = map fst (games s) @ codes_of outs)"
proof (intro conjI impI)
  show "genID gs draws = find (\<lambda>c. \<not> hasOwnProperty gs c) draws" by (rule genID_find)
next
  assume "reachable s"
  then show "distinct (map fst (games s))" using reachable_inv [of s] by (simp add: registry_inv_def)
next
  assume a: "reachable s \<and> list_all (\<lambda>i. \<not> is_disconnect i) tr \<and> run s [] tr = Done s' outs"
  then have "reachable s'" by (auto intro: run_reachable)
  then have d: "distinct (map fst (games s'))" using reachable_inv [of s'] by (simp add: registry_inv_def)
  from a run_keys [of s "[]" tr s' outs]
  have k: "map fst (games s') = map fst (games s) @ codes_of outs" by auto
  with d show "distinct (codes_of outs)" by simp
  from k d show "set (codes_of outs) \<inter> fst ` set (games s) = {}" by auto
  from k show "map fst (games s') = map fst (games s) @ codes_of outs" .
qed

theorem codes_unique_witness:
  "reachable (init :: nat state) \<and> list_all (\<lambda>i. \<not> is_disconnect i) tr_two
   \<and> (\<exists>s' outs. run init [] tr_two = Done s' outs
         \<and> codes_of outs = [''abcde'', ''fghij'']
         \<and> distinct (codes_of outs)
         \<and> map fst (games s') = [''abcde'', ''fghij''])"
proof -
  have t: "list_all (\<lambda>i. \<not> is_disconnect i) tr_two" by (simp add: tr_two_def)
  obtain s' where r: "run init [] tr_two = Done s'
      [RespondGame jack_listing,
       RespondGame \<lparr>l_id = ''fghij'', l_name = ''Chris' Game'', l_created = 201, l_difficulty = 3\<rparr>]"
    by (simp add: tr_two_def ex_defs op_defs)
  let ?outs = "[RespondGame jack_listing,
       RespondGame \<lparr>l_id = ''fghij'', l_name = ''Chris' Game'', l_created = 201, l_difficulty = 3\<rparr>]
      :: nat out list"
  have i: "reachable (init :: nat state)" by (rule reachable.start)
  have c: "codes_of ?outs = [''abcde'', ''fghij'']" by (simp add: jack_listing_def)
  from i t r have prem: "reachable (init :: nat state)
      \<and> list_all (\<lambda>i. \<not> is_disconnect i) tr_two \<and> run init [] tr_two = Done s' ?outs"
    by (intro conjI)
  note u = codes_unique [where s = "init :: nat state" and tr = tr_two and s' = s'
      and outs = ?outs, THEN conjunct2, THEN conjunct2, THEN mp, OF prem]
  have "distinct (codes_of ?outs)"
    "map fst (games s') = map fst (games (init :: nat state)) @ codes_of ?outs"
    using u [THEN conjunct1] u [THEN conjunct2, THEN conjunct2] .
  then have "distinct (codes_of ?outs)" "map fst (games s') = [''abcde'', ''fghij'']"
    by (simp_all only: c) (simp_all add: init_def)
  with i t r c show ?thesis by (auto simp: jack_listing_def)
qed

subsection \<open>C8: the list of joinable games\<close>




subsection \<open>C9: the name of a game\<close>

text \<open>
  C9: whenever \<^verbatim>\<open>CG\<close> finds a code, the name it stores and returns for a player's name
  (a string) is that name followed by \<^verbatim>\<open>' Game\<close> when the name ends in \<^verbatim>\<open>s\<close>, and by \<^verbatim>\<open>'s Game\<close>
  otherwise (also for the empty name); Jack gives \<^verbatim>\<open>Jack's Game\<close> and Chris gives
  \<^verbatim>\<open>Chris' Game\<close>.
\<close>

theorem CG_display_name:
  "(genID (games s) draws = Some gid \<longrightarrow>
      (\<exists>s' g. CG s socket (Some playerName) diff gameData draws t1 t2 =
                 Done s' [RespondGame \<lparr>l_id = gid, l_name = name g, l_created = t2,
                                        l_difficulty = diff\<rparr>]
         \<and> map_of (games s') gid = Some g
         \<and> name g = (if playerName \<noteq> [] \<and> last playerName = CHR ''s''
                      then playerName @ ''' Game'' else playerName @ '''s Game'')))
   \<and> gameName ''Jack'' = ''Jack's Game'' \<and> gameName ''Chris'' = ''Chris' Game''"
  by (simp add: CG_def Let_def gameName_cases AList.update_conv')

theorem CG_display_name_witness:
  "genID (games (init :: nat state)) [''abcde''] = Some ''abcde''
   \<and> (\<exists>s' g. CG (init :: nat state) 0 (Some ''Chris'') 2 0 [''abcde''] 100 101 =
                Done s' [RespondGame \<lparr>l_id = ''abcde'', l_name = name g, l_created = 101,
                                       l_difficulty = 2\<rparr>]
         \<and> map_of (games s') ''abcde'' = Some g \<and> name g = ''Chris' Game'')"
proof -
  have h: "genID (games (init :: nat state)) [''abcde''] = Some ''abcde''"
    by (simp add: init_def hasOwnProperty_def)
  from CG_display_name [of "init :: nat state" "[''abcde'']" "''abcde''" 0 "''Chris''" 2 0 100 101] h
  show ?thesis by simp
qed

subsection \<open>C10: joining a game that has a second player\<close>

text \<open>
  C10: when the game has a second player already and the new name differs from the
  first player's, \<^verbatim>\<open>JG\<close> answers ok and overwrites the second player's name and
  socket with the caller's. The fields of the replaced player's socket are not touched:
  if they named this game with the role slave, they still do.
\<close>

theorem JG_replaces_joiner:
  assumes "map_of (games s) gid = Some g" and "sockets_slave g = Some old"
    and "p \<noteq> Some (players_master g)"
  shows "\<exists>s'. JG s socket gid p =
                 Done s' [RespondOk, Emit (sockets_master g) GS, Emit socket (PP (data g))]
           \<and> map_of (games s') gid =
                 Some (g\<lparr>players_slave := p, sockets_slave := Some socket\<rparr>)
           \<and> (old \<noteq> socket \<longrightarrow> socks s' old = socks s old)
           \<and> (gameID (socks s old) = Some gid \<and> role (socks s old) = Some Slave \<longrightarrow>
                gameID (socks s' old) = Some gid \<and> role (socks s' old) = Some Slave)"
  using assms by (auto simp: JG_joined AList.update_conv')

theorem JG_replaces_joiner_witness:
  "map_of (games st_joined) ''abcde'' =
     Some (jack_game\<lparr>players_slave := Some ''Ann'', sockets_slave := Some 1\<rparr>)
   \<and> Some ''Bob'' \<noteq> Some ''Jack''
   \<and> JG st_joined 2 ''abcde'' (Some ''Bob'') = Done st_rejoined [RespondOk, Emit 0 GS, Emit 2 (PP 0)]
   \<and> map_of (games st_rejoined) ''abcde'' =
       Some (jack_game\<lparr>players_slave := Some ''Bob'', sockets_slave := Some 2\<rparr>)
   \<and> socks st_rejoined 1 = \<lparr>gameID = Some ''abcde'', role = Some Slave\<rparr>"
proof -
  have g: "map_of (games st_joined) ''abcde'' =
     Some (jack_game\<lparr>players_slave := Some ''Ann'', sockets_slave := Some 1\<rparr>)"
    by (simp add: ex_defs)
  have j: "JG st_joined 2 ''abcde'' (Some ''Bob'') = Done st_rejoined [RespondOk, Emit 0 GS, Emit 2 (PP 0)]"
    using exec_rejoined by (simp add: ex_defs)
  from JG_replaces_joiner [OF g, of 1 "Some ''Bob''" 2] j
  have "socks st_rejoined 1 = socks st_joined 1" by (simp add: ex_defs)
  with g j show ?thesis by (simp add: ex_defs)
qed

end
